theory Spec2Isabelle
  imports Complex_Main
begin

section \<open>The NER network of \<open>deeppavlov/models/ner/network_refactored.py\<close>\<close>

text \<open>
  The class \<open>NerNetwork\<close> builds a TensorFlow 1.x graph in its constructor. The
  embedding keeps the graph symbolic: every library call that creates a graph node is a
  constructor of \<open>tensor\<close>, every Python exception is a value of \<open>error\<close>, the instance
  dictionary of \<open>self\<close> is a map from attribute names to values, and every method is a
  function from the state before the call to its result and the state after it.
\<close>

subsection \<open>Exceptions\<close>

datatype error =
    TypeError string
  | ValueError string
  | RuntimeError string
  | Warning string
  | UnboundLocalError string
  | AttributeError string
  | IndexError string

subsection \<open>Graph nodes\<close>

datatype dtype = int32 | float32

text \<open>A dimension of a placeholder shape: \<open>None\<close> or an integer.\<close>

datatype dim = AnyDim | Dim nat

datatype direction = Fw | Bw

datatype activation = Linear | Relu

datatype default_value = DefaultFloat real | DefaultBool bool

text \<open>
  One constructor for each call of the source that yields a tensor. The layer functions
  of \<open>deeppavlov.core.layers.tf_layers\<close> and \<open>TFModel.get_train_op\<close> are outside the
  sources; their results are opaque nodes that record the arguments of the call. A
  bidirectional layer returns a pair of tensors (forward, backward), so its node carries
  a \<open>direction\<close>. Instead of the variable-scope and layer names (\<open>'Layer_' + str(n)\<close>)
  a recurrent node carries the layer index \<open>n\<close>.
\<close>

datatype tensor =
    Placeholder dtype "dim list" "string option"
  | PlaceholderWithDefault default_value "dim list" string
  | EmbeddingLayer tensor "real list list option"
  | LayersDropout tensor tensor "sdim list"
  | CharacterEmbeddingNetwork
  | BiRnn direction tensor nat string nat
  | CudnnBiLstm direction tensor nat nat
  | CudnnBiGru direction tensor nat nat
  | Concat "tensor list" int
  | VariationalDropout tensor tensor
  | StackedCnn tensor "nat list" nat bool tensor
  | Dense tensor nat activation
  | L2LossKernel tensor
  | ReduceSum tensor nat
  | CrfLogLikelihood tensor tensor tensor
  | CrfTransitionParams tensor tensor tensor
  | Neg tensor
  | OneHot tensor nat
  | SoftmaxCrossEntropyWithLogits tensor tensor
  | Mul tensor tensor
  | Add tensor tensor
  | Const real
  | Pack "tensor list"
  | ReduceMean tensor
  | TrainOp tensor tensor real
and sdim = ShapeOf tensor nat | Lit nat

subsection \<open>Python values, the instance and the graph collections\<close>

datatype pyval =
    PNone
  | PBool bool
  | PTensor tensor
  | PTensors "tensor list"
  | PSession "nat option"

text \<open>
  The state a method runs in: the instance dictionary of \<open>self\<close> and the
  \<open>REGULARIZATION_LOSSES\<close> collection of the default graph, to which
  \<open>tf.layers.dense\<close> adds the value of its kernel regularizer.
\<close>

record state =
  self :: "string \<rightharpoonup> pyval"
  REGULARIZATION_LOSSES :: "tensor list"

type_synonym 'a py = "state \<Rightarrow> (error + 'a) \<times> state"

definition return :: "'a \<Rightarrow> 'a py" where
  "return x = (\<lambda>s. (Inr x, s))"

definition raise :: "error \<Rightarrow> 'a py" where
  "raise e = (\<lambda>s. (Inl e, s))"

definition bind :: "'a py \<Rightarrow> ('a \<Rightarrow> 'b py) \<Rightarrow> 'b py" where
  "bind m f = (\<lambda>s. case m s of (Inl e, s') \<Rightarrow> (Inl e, s') | (Inr x, s') \<Rightarrow> f x s')"

definition seq :: "unit py \<Rightarrow> 'b py \<Rightarrow> 'b py" where
  "seq m k = bind m (\<lambda>_. k)"

definition lift :: "error + 'a \<Rightarrow> 'a py" where
  "lift r = (\<lambda>s. (r, s))"

definition getattr :: "string \<Rightarrow> pyval py" where
  "getattr name = (\<lambda>s. case self s name of
       None \<Rightarrow> (Inl (AttributeError name), s)
     | Some v \<Rightarrow> (Inr v, s))"

definition setattr :: "string \<Rightarrow> pyval \<Rightarrow> unit py" where
  "setattr name v = (\<lambda>s. (Inr (), s\<lparr>self := (self s)(name \<mapsto> v)\<rparr>))"

text \<open>\<open>self.name\<close> read where the source uses it as a tensor.\<close>

definition getattr_tensor :: "string \<Rightarrow> tensor py" where
  "getattr_tensor name = bind (getattr name) (\<lambda>v. case v of
       PTensor t \<Rightarrow> return t
     | _ \<Rightarrow> raise (TypeError name))"

text \<open>\<open>self.name.append(t)\<close>: the attribute is read, the list it holds is extended in place.\<close>

definition append_attr :: "string \<Rightarrow> tensor \<Rightarrow> unit py" where
  "append_attr name t = bind (getattr name) (\<lambda>v. case v of
       PTensors ts \<Rightarrow> setattr name (PTensors (ts @ [t]))
     | _ \<Rightarrow> raise (AttributeError ''append''))"

text \<open>
  \<open>tf.layers.dense(units, n, activation=..., kernel_regularizer=tf.nn.l2_loss)\<close>: the
  layer's output, and the L2 loss of its kernel added to the collection.
\<close>

definition layers_dense :: "tensor \<Rightarrow> nat \<Rightarrow> activation \<Rightarrow> tensor py" where
  "layers_dense units n act = (\<lambda>s.
     (Inr (Dense units n act),
      s\<lparr>REGULARIZATION_LOSSES := REGULARIZATION_LOSSES s @ [L2LossKernel (Dense units n act)]\<rparr>))"

text \<open>
  \<open>tf.concat(values, axis, name='concat')\<close>: \<open>axis\<close> is a required parameter of
  TensorFlow 1.x, so a call that passes \<open>values\<close> alone raises \<open>TypeError\<close>.
\<close>

definition tf_concat :: "tensor list \<Rightarrow> int option \<Rightarrow> error + tensor" where
  "tf_concat values axis = (case axis of
       None \<Rightarrow> Inl (TypeError ''concat() missing 1 required positional argument: axis'')
     | Some a \<Rightarrow> Inr (Concat values a))"

subsection \<open>Constructor arguments and collaborators\<close>

record config =
  n_tags :: nat
  char_emb_dim :: "nat option"
  capitalization_dim :: "nat option"
  pos_features_dim :: "nat option"
  net_type :: string
  cell_type :: string
  use_cudnn_rnn :: bool
  two_dense_on_top :: bool
  n_hidden_list :: "nat list"
  cnn_filter_width :: nat
  use_crf :: bool
  token_emb_mat :: "real list list option"
  char_emb_mat :: "real list list option"
  use_batch_norm :: bool
  embeddings_dropout :: bool
  top_dropout :: bool
  intra_layer_dropout :: bool
  l2_reg :: real
  clip_grad_norm :: real
  gpu :: "nat option"

text \<open>The defaults of the signature of \<open>__init__\<close>; \<open>n_tags\<close> has none.\<close>

definition default_config :: "nat \<Rightarrow> config" where
  "default_config n = \<lparr>
     n_tags = n, char_emb_dim = None, capitalization_dim = None, pos_features_dim = None,
     net_type = ''rnn'', cell_type = ''lstm'', use_cudnn_rnn = False,
     two_dense_on_top = False, n_hidden_list = [128], cnn_filter_width = 7,
     use_crf = False, token_emb_mat = None, char_emb_mat = None, use_batch_norm = False,
     embeddings_dropout = False, top_dropout = False, intra_layer_dropout = False,
     l2_reg = 0, clip_grad_norm = 5, gpu = None\<rparr>"

text \<open>
  What the constructor sees of its surroundings: whether \<open>check_gpu_existance()\<close> finds
  a GPU, and what \<open>character_embedding_network()\<close> does when it is called without
  arguments, as \<open>_build_char_embeddings\<close> calls it (the function is outside the sources).
\<close>

record env =
  check_gpu_existance :: bool
  character_embedding_network :: "error + tensor"

subsection \<open>Feature builders\<close>

definition build_training_placeholders :: "unit py" where
  "build_training_placeholders =
     seq (setattr ''learning_rate_ph''
            (PTensor (Placeholder float32 [] (Some ''learning_rate''))))
    (seq (setattr ''_dropout_ph''
            (PTensor (PlaceholderWithDefault (DefaultFloat 1) [] ''dropout'')))
         (setattr ''training_ph''
            (PTensor (PlaceholderWithDefault (DefaultBool False) [] ''is_training''))))"

text \<open>
  \<open>embedding_layer\<close> is outside the sources; its result is the opaque node
  \<open>EmbeddingLayer\<close>. The dropout call passes \<open>inputs\<close>, \<open>rate\<close> and \<open>noise_shape\<close>
  only; the node keeps these three.
\<close>

definition build_word_embeddings :: "real list list option \<Rightarrow> bool \<Rightarrow> unit py" where
  "build_word_embeddings token_emb_mat' embeddings_dropout' =
     (let token_indices_ph = Placeholder int32 [AnyDim, AnyDim] None;
          emb = EmbeddingLayer token_indices_ph token_emb_mat'
      in bind (if embeddings_dropout'
               then bind (getattr_tensor ''_dropout_ph'') (\<lambda>rate.
                      return (LayersDropout emb rate [ShapeOf emb 0, Lit 1, ShapeOf emb 2]))
               else return emb) (\<lambda>emb.
         seq (append_attr ''_xs_placeholders'' token_indices_ph)
             (append_attr ''_input_features'' emb)))"

definition build_mask :: "tensor py" where
  "build_mask =
     (let mask_ph = Placeholder float32 [AnyDim, AnyDim] (Some ''Mask_ph'')
      in seq (append_attr ''_xs_placeholders'' mask_ph) (return mask_ph))"

text \<open>
  The body creates the placeholder, calls \<open>character_embedding_network()\<close> without
  arguments and drops the result; it touches neither list of \<open>self\<close>.
\<close>

definition build_char_embeddings :: "env \<Rightarrow> real list list option \<Rightarrow> bool \<Rightarrow> unit py" where
  "build_char_embeddings e char_emb_mat' embeddings_dropout' =
     (let character_indices_ph = Placeholder int32 [AnyDim, AnyDim, AnyDim] (Some ''Char_ph'')
      in bind (lift (character_embedding_network e)) (\<lambda>_. return ()))"

definition build_capitalization :: "nat \<Rightarrow> unit py" where
  "build_capitalization capitalization_dim' =
     (let capitalization_ph =
            Placeholder int32 [AnyDim, AnyDim, Dim capitalization_dim'] (Some ''Capitalization_ph'')
      in seq (append_attr ''_xs_placeholders'' capitalization_ph)
             (append_attr ''_input_features'' capitalization_ph))"

definition build_pos :: "nat \<Rightarrow> unit py" where
  "build_pos pos_features_dim' =
     (let pos_ph = Placeholder int32 [AnyDim, AnyDim, Dim pos_features_dim'] (Some ''POS_ph'')
      in seq (append_attr ''_xs_placeholders'' pos_ph)
             (append_attr ''_input_features'' pos_ph))"

subsection \<open>Encoders\<close>

text \<open>\<open>str.lower()\<close> on ASCII letters.\<close>

definition lower_char :: "char \<Rightarrow> char" where
  "lower_char c = (let k = (of_char c :: nat)
                   in if 65 \<le> k \<and> k \<le> 90 then char_of (k + 32) else c)"

definition lower :: "string \<Rightarrow> string" where
  "lower s = map lower_char s"

text \<open>
  \<open>variational_dropout(units, self._dropout_ph)\<close> after a recurrent layer, applied when
  \<open>intra_layer_dropout and n != len(n_hidden_list) - 1\<close>.
\<close>

definition intra_dropout :: "bool \<Rightarrow> nat \<Rightarrow> nat \<Rightarrow> tensor \<Rightarrow> tensor py" where
  "intra_dropout intra_layer_dropout' n len units =
     (if intra_layer_dropout' \<and> int n \<noteq> int len - 1
      then bind (getattr_tensor ''_dropout_ph'') (\<lambda>keep_prob.
             return (VariationalDropout units keep_prob))
      else return units)"

text \<open>
  The loop of \<open>_build_cudnn_rnn\<close> over \<open>enumerate(n_hidden_list)\<close>. Its body ends with
  \<open>return units\<close>, so the first iteration leaves the function and the remaining layers
  are not visited; an empty list runs no iteration and the function returns \<open>None\<close>.
\<close>

fun build_cudnn_rnn_loop ::
  "tensor \<Rightarrow> (nat \<times> nat) list \<Rightarrow> nat \<Rightarrow> string \<Rightarrow> bool \<Rightarrow> tensor option py" where
  "build_cudnn_rnn_loop units [] len cell_type' intra_layer_dropout' = return None"
| "build_cudnn_rnn_loop units ((n, n_hidden) # rest) len cell_type' intra_layer_dropout' =
     bind (if lower cell_type' = ''lstm''
           then return [CudnnBiLstm Fw units n_hidden n, CudnnBiLstm Bw units n_hidden n]
           else if lower cell_type' = ''gru''
           then return [CudnnBiGru Fw units n_hidden n, CudnnBiGru Bw units n_hidden n]
           else raise (RuntimeError (''Wrong cell type '' @ cell_type' @ ''! Only gru and lstm!'')))
       (\<lambda>units. bind (lift (tf_concat units (Some (- 1)))) (\<lambda>units.
          bind (intra_dropout intra_layer_dropout' n len units) (\<lambda>units.
            return (Some units))))"

definition build_cudnn_rnn :: "env \<Rightarrow> tensor \<Rightarrow> nat list \<Rightarrow> string \<Rightarrow> bool \<Rightarrow> tensor option py" where
  "build_cudnn_rnn e units n_hidden_list' cell_type' intra_layer_dropout' =
     (if \<not> check_gpu_existance e
      then raise (RuntimeError ''Usage of cuDNN RNN layers require GPU along with cuDNN library'')
      else build_cudnn_rnn_loop units (enumerate 0 n_hidden_list') (length n_hidden_list')
             cell_type' intra_layer_dropout')"

text \<open>
  Modelled from the spec: \<open>bi_rnn\<close> of \<open>deeppavlov.core.layers.tf_layers\<close> is not among
  the sources. The spec has each recurrent layer run a forward and a backward cell (LSTM
  or GRU, selected by \<open>cell_type\<close>) over the sequence, and an unrecognized \<open>cell_type\<close>
  be a configuration error. The result is the pair of the two outputs.
\<close>

definition bi_rnn :: "tensor \<Rightarrow> nat \<Rightarrow> string \<Rightarrow> nat \<Rightarrow> error + tensor list" where
  "bi_rnn units n_hidden cell_type' n =
     (if cell_type' = ''lstm'' \<or> cell_type' = ''gru''
      then Inr [BiRnn Fw units n_hidden cell_type' n, BiRnn Bw units n_hidden cell_type' n]
      else Inl (RuntimeError ''cell_type must be either gru or lstm''))"

fun build_rnn_loop ::
  "tensor \<Rightarrow> (nat \<times> nat) list \<Rightarrow> nat \<Rightarrow> string \<Rightarrow> bool \<Rightarrow> tensor py" where
  "build_rnn_loop units [] len cell_type' intra_layer_dropout' = return units"
| "build_rnn_loop units ((n, n_hidden) # rest) len cell_type' intra_layer_dropout' =
     bind (lift (bi_rnn units n_hidden cell_type' n)) (\<lambda>units.
       bind (lift (tf_concat units (Some (- 1)))) (\<lambda>units.
         bind (intra_dropout intra_layer_dropout' n len units) (\<lambda>units.
           build_rnn_loop units rest len cell_type' intra_layer_dropout')))"

definition build_rnn :: "tensor \<Rightarrow> nat list \<Rightarrow> string \<Rightarrow> bool \<Rightarrow> tensor py" where
  "build_rnn units n_hidden_list' cell_type' intra_layer_dropout' =
     build_rnn_loop units (enumerate 0 n_hidden_list') (length n_hidden_list')
       cell_type' intra_layer_dropout'"

definition build_cnn :: "tensor \<Rightarrow> nat list \<Rightarrow> nat \<Rightarrow> bool \<Rightarrow> tensor py" where
  "build_cnn units n_hidden_list' cnn_filter_width' use_batch_norm' =
     bind (getattr_tensor ''training_ph'') (\<lambda>training_ph.
       return (StackedCnn units n_hidden_list' cnn_filter_width' use_batch_norm' training_ph))"

subsection \<open>Output head and objective\<close>

definition build_top :: "tensor \<Rightarrow> nat \<Rightarrow> nat \<Rightarrow> bool \<Rightarrow> bool \<Rightarrow> tensor py" where
  "build_top units n_tags' n_hididden top_dropout' two_dense_on_top' =
     bind (if top_dropout'
           then bind (getattr_tensor ''_dropout_ph'') (\<lambda>keep_prob.
                  return (VariationalDropout units keep_prob))
           else return units) (\<lambda>units.
     bind (if two_dense_on_top' then layers_dense units n_hididden Relu else return units)
       (\<lambda>units. layers_dense units n_tags' Linear))"

definition get_collection :: "tensor list py" where
  "get_collection = (\<lambda>s. (Inr (REGULARIZATION_LOSSES s), s))"

text \<open>
  The function ends with \<open>return train_op, loss,\<close>: a tuple of two elements, modelled as
  the list of the two.
\<close>

definition build_train_predict ::
  "tensor \<Rightarrow> tensor \<Rightarrow> nat \<Rightarrow> bool \<Rightarrow> real \<Rightarrow> real \<Rightarrow> tensor list py" where
  "build_train_predict logits mask' n_tags' use_crf' clip_grad_norm' l2_reg' =
     bind (getattr_tensor ''_y_ph'') (\<lambda>y_ph.
       let loss_tensor =
             (if use_crf'
              then (let sequence_lengths = ReduceSum mask' 1;
                        log_likelihood = CrfLogLikelihood logits y_ph sequence_lengths;
                        transition_params = CrfTransitionParams logits y_ph sequence_lengths
                    in Neg log_likelihood)
              else (let ground_truth_labels = OneHot y_ph n_tags';
                        loss_tensor = SoftmaxCrossEntropyWithLogits ground_truth_labels logits
                    in Mul loss_tensor mask'));
           loss = ReduceMean loss_tensor
       in bind (if l2_reg' > 0
                then bind get_collection (\<lambda>losses.
                       return (Add loss (Mul (Const l2_reg') (ReduceMean (Pack losses)))))
                else return loss) (\<lambda>total_loss.
          bind (getattr_tensor ''learning_rate_ph'') (\<lambda>learning_rate_ph.
            return [TrainOp total_loss learning_rate_ph clip_grad_norm', loss])))"

subsection \<open>The constructor\<close>

text \<open>Unpacking a tuple into three names.\<close>

fun unpack3 :: "'a list \<Rightarrow> error + 'a \<times> 'a \<times> 'a" where
  "unpack3 [a, b, c] = Inr (a, b, c)"
| "unpack3 xs =
     (if length xs < 3 then Inl (ValueError ''not enough values to unpack (expected 3)'')
      else Inl (ValueError ''too many values to unpack (expected 3)''))"

text \<open>A local variable of a Python function: not yet bound, or bound to a value.\<close>

datatype 'a local_var = Unbound | Bound 'a

text \<open>
  The section "Building input features" of \<open>__init__\<close> (lines 44 to 69): it yields the
  aggregated features and the mask placeholder.
\<close>

definition init_input_features :: "env \<Rightarrow> config \<Rightarrow> (tensor \<times> tensor) py" where
  "init_input_features e cfg =
     seq build_training_placeholders
    (seq (setattr ''_xs_placeholders'' (PTensors []))
    (seq (setattr ''_y_ph'' (PTensor (Placeholder int32 [AnyDim, AnyDim] (Some ''y_ph''))))
    (seq (setattr ''_input_features'' (PTensors []))
    (seq (build_word_embeddings (token_emb_mat cfg) (embeddings_dropout cfg))
    (bind build_mask (\<lambda>mask_ph.
     seq (case char_emb_dim cfg of
            None \<Rightarrow> return ()
          | Some _ \<Rightarrow> build_char_embeddings e (char_emb_mat cfg) (embeddings_dropout cfg))
    (seq (case capitalization_dim cfg of
            None \<Rightarrow> return ()
          | Some d \<Rightarrow> build_capitalization d)
    (seq (case pos_features_dim cfg of
            None \<Rightarrow> return ()
          | Some d \<Rightarrow> build_pos d)
    (bind (getattr ''_input_features'') (\<lambda>input_features.
     bind (case input_features of
             PTensors ts \<Rightarrow> lift (tf_concat ts None)
           | _ \<Rightarrow> lift (tf_concat [] None)) (\<lambda>features.
       return (features, mask_ph))))))))))))"

text \<open>
  The section "Building the network" (lines 73 to 86). When \<open>net_type\<close> is neither
  \<open>'rnn'\<close> nor \<open>'cnn'\<close> no branch binds \<open>units\<close>. \<open>_build_cudnn_rnn\<close> can return
  \<open>None\<close>; that happens for the empty \<open>n_hidden_list\<close> only, where evaluating the
  argument \<open>n_hidden_list[-1]\<close> raises before \<open>_build_top\<close> is entered.
\<close>

definition init_network :: "env \<Rightarrow> config \<Rightarrow> tensor \<Rightarrow> tensor \<Rightarrow> unit py" where
  "init_network e cfg features mask_ph =
     bind (if net_type cfg = ''rnn''
           then (if use_cudnn_rnn cfg
                 then (if l2_reg cfg > 0
                       then raise (Warning ''cuDNN RNN are not l2 regularizable'')
                       else bind (build_cudnn_rnn e features (n_hidden_list cfg) (cell_type cfg)
                                    (intra_layer_dropout cfg)) (\<lambda>units. return (Bound units)))
                 else bind (build_rnn features (n_hidden_list cfg) (cell_type cfg)
                              (intra_layer_dropout cfg)) (\<lambda>units. return (Bound (Some units))))
           else if net_type cfg = ''cnn''
           then bind (build_cnn features (n_hidden_list cfg) (cnn_filter_width cfg)
                        (use_batch_norm cfg)) (\<lambda>units. return (Bound (Some units)))
           else return Unbound) (\<lambda>units.
     bind (case units of
             Unbound \<Rightarrow> raise (UnboundLocalError ''units'')
           | Bound u \<Rightarrow> return u) (\<lambda>units.
     bind (case n_hidden_list cfg of
             [] \<Rightarrow> raise (IndexError ''tuple index out of range'')
           | _ \<Rightarrow> return (last (n_hidden_list cfg))) (\<lambda>n_hidden.
     bind (case units of
             None \<Rightarrow> raise (TypeError ''NoneType'')
           | Some u \<Rightarrow> build_top u (n_tags cfg) n_hidden (top_dropout cfg)
                        (two_dense_on_top cfg)) (\<lambda>logits.
     bind (build_train_predict logits mask_ph (n_tags cfg) (use_crf cfg) (clip_grad_norm cfg)
             (l2_reg cfg)) (\<lambda>result.
     bind (lift (unpack3 result)) (\<lambda>(train_op, loss, predict_method).
       seq (setattr ''train_op'' (PTensor train_op))
      (seq (setattr ''loss'' (PTensor loss))
           (setattr ''predict'' (PTensor predict_method)))))))))"

text \<open>The section "Initialize the session" (lines 90 to 95).\<close>

definition init_session :: "config \<Rightarrow> unit py" where
  "init_session cfg = setattr ''sess'' (PSession (gpu cfg))"

definition NerNetwork_init :: "env \<Rightarrow> config \<Rightarrow> unit py" where
  "NerNetwork_init e cfg =
     bind (init_input_features e cfg) (\<lambda>(features, mask_ph).
       seq (init_network e cfg features mask_ph) (init_session cfg))"

subsection \<open>The other methods\<close>

text \<open>
  Values that flow through a session at run time: arrays of floats and of integers, by
  rank.
\<close>

datatype ndarray =
    Scalar real
  | Floats1 "real list"
  | Floats2 "real list list"
  | Floats3 "real list list list"
  | Ints2 "int list list"
  | Ints3 "int list list list"

text \<open>
  The libraries \<open>predict_no_crf\<close> calls: \<open>Session.run(fetches, feed_dict)\<close> and
  \<open>tf.contrib.crf.viterbi_decode(score, transition_params)\<close>, which returns the best
  tag sequence and its score.
\<close>

record runtime =
  session_run :: "tensor list \<Rightarrow> (tensor \<times> ndarray) list \<Rightarrow> error + ndarray list"
  viterbi_decode :: "real list list \<Rightarrow> real list list \<Rightarrow> error + nat list \<times> real"

text \<open>\<open>if v:\<close> on a Python value; a TensorFlow tensor refuses to be used as a bool.\<close>

fun truthy :: "pyval \<Rightarrow> error + bool" where
  "truthy PNone = Inr False"
| "truthy (PBool b) = Inr b"
| "truthy (PTensors ts) = Inr (ts \<noteq> [])"
| "truthy (PSession g) = Inr True"
| "truthy (PTensor t) = Inl (TypeError ''Using a tf.Tensor as a Python bool is not allowed'')"

text \<open>\<open>int(x)\<close> of a float truncates towards zero; \<open>xs[:k]\<close> counts a negative \<open>k\<close> from the end.\<close>

definition py_int :: "real \<Rightarrow> int" where
  "py_int x = (if 0 \<le> x then \<lfloor>x\<rfloor> else \<lceil>x\<rceil>)"

definition slice_to :: "'a list \<Rightarrow> int \<Rightarrow> 'a list" where
  "slice_to xs k = (if 0 \<le> k then take (nat k) xs else take (nat (int (length xs) + k)) xs)"

text \<open>The loop over \<open>zip(logits, sequence_lengths)\<close> of the CRF branch.\<close>

fun decode_loop ::
  "runtime \<Rightarrow> (real list list \<times> real) list \<Rightarrow> real list list \<Rightarrow> nat list list
     \<Rightarrow> error + nat list list" where
  "decode_loop rt [] trans_params y_pred = Inr y_pred"
| "decode_loop rt ((logit, sequence_length) # rest) trans_params y_pred =
     (let logit = slice_to logit (py_int sequence_length)
      in case viterbi_decode rt logit trans_params of
           Inl err \<Rightarrow> Inl err
         | Inr (viterbi_seq, viterbi_score) \<Rightarrow>
             decode_loop rt rest trans_params (y_pred @ [viterbi_seq]))"

datatype prediction = Decoded "nat list list" | Fetched "ndarray list"

definition run_session :: "runtime \<Rightarrow> pyval \<Rightarrow> tensor list \<Rightarrow> (tensor \<times> ndarray) list \<Rightarrow> ndarray list py" where
  "run_session rt sess fetches feed_dict =
     (case sess of
        PSession g \<Rightarrow> lift (session_run rt fetches feed_dict)
      | _ \<Rightarrow> raise (AttributeError ''run''))"

definition predict_no_crf :: "runtime \<Rightarrow> ndarray list \<Rightarrow> prediction py" where
  "predict_no_crf rt args =
     bind (getattr ''_xs_placeholders'') (\<lambda>xs_placeholders.
     bind (case xs_placeholders of
             PTensors phs \<Rightarrow> return (zip phs args)
           | _ \<Rightarrow> raise (TypeError ''zip'')) (\<lambda>feed_dict.
     bind (getattr ''_use_crf'') (\<lambda>use_crf'.
     bind (lift (truthy use_crf')) (\<lambda>crf.
       if crf
       then bind (getattr ''_sess'') (\<lambda>sess.
            bind (getattr_tensor ''_logits'') (\<lambda>logits.
            bind (getattr_tensor ''_transition_params'') (\<lambda>transition_params.
            bind (getattr_tensor ''_sequence_lengths'') (\<lambda>sequence_lengths.
            bind (run_session rt sess [logits, transition_params, sequence_lengths] feed_dict)
              (\<lambda>fetched. case fetched of
                 [Floats3 logits, Floats2 trans_params, Floats1 sequence_lengths] \<Rightarrow>
                   bind (lift (decode_loop rt (zip logits sequence_lengths) trans_params []))
                     (\<lambda>y_pred. return (Decoded y_pred))
               | _ \<Rightarrow> raise (TypeError ''fetched values''))))))
       else bind (getattr ''_sess'') (\<lambda>sess.
            bind (getattr_tensor ''_y_pred'') (\<lambda>y_pred.
            bind (run_session rt sess [y_pred] feed_dict) (\<lambda>fetched.
              return (Fetched fetched))))))))"

text \<open>
  \<open>__call__\<close>, \<open>train_on_batch\<close>, \<open>save\<close> and \<open>load\<close> have the body \<open>pass\<close>: they return
  \<open>None\<close> and change nothing. (\<open>_fill_feed_dict\<close> has no body at all in the file.)
\<close>

definition call :: "ndarray list \<Rightarrow> pyval py" where
  "call args = return PNone"

definition train_on_batch :: "ndarray list \<Rightarrow> ndarray \<Rightarrow> pyval py" where
  "train_on_batch x y = return PNone"

definition save :: "ndarray list \<Rightarrow> pyval py" where
  "save args = return PNone"

definition load :: "ndarray list \<Rightarrow> pyval py" where
  "load args = return PNone"

subsection \<open>Instances\<close>

text \<open>
  The states an instance can be in: \<open>object.__new__\<close> makes it with an empty
  dictionary, and every method of the class, called with any arguments, takes it from one
  state to the next, also when the call raises. The collection of the default graph can
  hold anything.
\<close>

inductive reachable :: "env \<Rightarrow> runtime \<Rightarrow> state \<Rightarrow> bool" for e :: env and rt :: runtime where
  new: "reachable e rt \<lparr>self = Map.empty, REGULARIZATION_LOSSES = g\<rparr>"
| init: "reachable e rt s \<Longrightarrow> reachable e rt (snd (NerNetwork_init e cfg s))"
| training_placeholders:
    "reachable e rt s \<Longrightarrow> reachable e rt (snd (build_training_placeholders s))"
| word_embeddings:
    "reachable e rt s \<Longrightarrow> reachable e rt (snd (build_word_embeddings m d s))"
| mask: "reachable e rt s \<Longrightarrow> reachable e rt (snd (build_mask s))"
| char_embeddings:
    "reachable e rt s \<Longrightarrow> reachable e rt (snd (build_char_embeddings e m d s))"
| capitalization:
    "reachable e rt s \<Longrightarrow> reachable e rt (snd (build_capitalization k s))"
| pos: "reachable e rt s \<Longrightarrow> reachable e rt (snd (build_pos k s))"
| cudnn_rnn:
    "reachable e rt s \<Longrightarrow> reachable e rt (snd (build_cudnn_rnn e u hs ct d s))"
| rnn: "reachable e rt s \<Longrightarrow> reachable e rt (snd (build_rnn u hs ct d s))"
| cnn: "reachable e rt s \<Longrightarrow> reachable e rt (snd (build_cnn u hs w b s))"
| top: "reachable e rt s \<Longrightarrow> reachable e rt (snd (build_top u n h d t s))"
| train_predict:
    "reachable e rt s \<Longrightarrow> reachable e rt (snd (build_train_predict lg m n c g l s))"
| predict: "reachable e rt s \<Longrightarrow> reachable e rt (snd (predict_no_crf rt args s))"
| called: "reachable e rt s \<Longrightarrow> reachable e rt (snd (call args s))"
| train: "reachable e rt s \<Longrightarrow> reachable e rt (snd (train_on_batch x y s))"
| saved: "reachable e rt s \<Longrightarrow> reachable e rt (snd (save args s))"
| loaded: "reachable e rt s \<Longrightarrow> reachable e rt (snd (load args s))"

text \<open>The attribute names that some method of the class assigns.\<close>

definition assigned_names :: "string set" where
  "assigned_names = {''learning_rate_ph'', ''_dropout_ph'', ''training_ph'',
     ''_xs_placeholders'', ''_y_ph'', ''_input_features'', ''train_op'', ''loss'',
     ''predict'', ''sess''}"

text \<open>
  What every method keeps true of an instance: its dictionary holds assigned names
  only, and \<open>_xs_placeholders\<close>, when set, is a list of tensors.
\<close>

definition instance_ok :: "state \<Rightarrow> bool" where
  "instance_ok s =
     (dom (self s) \<subseteq> assigned_names \<and>
      (case self s ''_xs_placeholders'' of
         None \<Rightarrow> True
       | Some v \<Rightarrow> (case v of PTensors ts \<Rightarrow> True | _ \<Rightarrow> False)))"

definition keeps_names :: "'a py \<Rightarrow> bool" where
  "keeps_names m = (\<forall>s. instance_ok s \<longrightarrow> instance_ok (snd (m s)))"

named_theorems keeps

subsection \<open>Widths and layers of encoder nodes\<close>

text \<open>
  Modelled from the spec: the recurrent layers \<open>bi_rnn\<close>, \<open>cudnn_bi_lstm\<close> and
  \<open>cudnn_bi_gru\<close> and \<open>variational_dropout\<close> are not among the sources. By the spec
  the forward and the backward output of a layer have the width \<open>n_hidden\<close> each (their
  concatenation has \<open>2 \<times> n_hidden\<close>), and dropout keeps the width. \<open>tf.concat\<close> along the
  last axis adds the widths up.
\<close>

fun last_dim :: "tensor \<Rightarrow> nat option" where
  "last_dim (BiRnn d units n_hidden ct n) = Some n_hidden"
| "last_dim (CudnnBiLstm d units n_hidden n) = Some n_hidden"
| "last_dim (CudnnBiGru d units n_hidden n) = Some n_hidden"
| "last_dim (Concat ts axis) =
     (if axis = - 1 then map_option sum_list (those (map last_dim ts)) else None)"
| "last_dim (VariationalDropout units keep_prob) = last_dim units"
| "last_dim (Dense units n act) = Some n"
| "last_dim (OneHot t n) = Some n"
| "last_dim (Placeholder dt shape name) =
     (case rev shape of Dim n # _ \<Rightarrow> Some n | _ \<Rightarrow> None)"
| "last_dim (PlaceholderWithDefault v shape name) = None"
| "last_dim (EmbeddingLayer t m) = None"
| "last_dim (LayersDropout t r ns) = last_dim t"
| "last_dim CharacterEmbeddingNetwork = None"
| "last_dim (StackedCnn t hs w b tr) = None"
| "last_dim (L2LossKernel t) = None"
| "last_dim (ReduceSum t a) = None"
| "last_dim (CrfLogLikelihood a b c) = None"
| "last_dim (CrfTransitionParams a b c) = None"
| "last_dim (Neg t) = last_dim t"
| "last_dim (SoftmaxCrossEntropyWithLogits a b) = None"
| "last_dim (Mul a b) = None"
| "last_dim (Add a b) = None"
| "last_dim (Const c) = None"
| "last_dim (Pack ts) = None"
| "last_dim (ReduceMean t) = None"
| "last_dim (TrainOp a b c) = None"

text \<open>
  The recurrent layers a node is built on, innermost first, each by its \<open>n_hidden\<close>:
  read off the forward output of every layer.
\<close>

fun hidden_layers :: "tensor \<Rightarrow> nat list" where
  "hidden_layers (BiRnn d units n_hidden ct n) = hidden_layers units @ [n_hidden]"
| "hidden_layers (CudnnBiLstm d units n_hidden n) = hidden_layers units @ [n_hidden]"
| "hidden_layers (CudnnBiGru d units n_hidden n) = hidden_layers units @ [n_hidden]"
| "hidden_layers (Concat ts axis) = (case ts of [] \<Rightarrow> [] | t # _ \<Rightarrow> hidden_layers t)"
| "hidden_layers (VariationalDropout units keep_prob) = hidden_layers units"
| "hidden_layers (Placeholder dt shape name) = []"
| "hidden_layers (PlaceholderWithDefault v shape name) = []"
| "hidden_layers (EmbeddingLayer t m) = []"
| "hidden_layers (LayersDropout t r ns) = []"
| "hidden_layers CharacterEmbeddingNetwork = []"
| "hidden_layers (StackedCnn t hs w b tr) = []"
| "hidden_layers (Dense units n act) = []"
| "hidden_layers (OneHot t n) = []"
| "hidden_layers (L2LossKernel t) = []"
| "hidden_layers (ReduceSum t a) = []"
| "hidden_layers (CrfLogLikelihood a b c) = []"
| "hidden_layers (CrfTransitionParams a b c) = []"
| "hidden_layers (Neg t) = []"
| "hidden_layers (SoftmaxCrossEntropyWithLogits a b) = []"
| "hidden_layers (Mul a b) = []"
| "hidden_layers (Add a b) = []"
| "hidden_layers (Const c) = []"
| "hidden_layers (Pack ts) = []"
| "hidden_layers (ReduceMean t) = []"
| "hidden_layers (TrainOp a b c) = []"

subsection \<open>The mask of a dropout with a noise shape\<close>





subsection \<open>Values of the loss nodes\<close>

text \<open>
  The value of a node under a feed. Floats are read as reals. The nodes of the objective
  are computed; every other node (a placeholder, the logits, a kernel penalty) takes the
  value the feed gives it. \<open>None\<close> stands for a value this evaluation does not
  determine: operands of different shapes, and the mean of no element (not a number in
  TensorFlow).
\<close>

definition one_hot :: "nat \<Rightarrow> int \<Rightarrow> real list" where
  "one_hot depth i = map (\<lambda>k. if int k = i then 1 else 0) [0..<depth]"

definition softmax_cross_entropy :: "real list \<Rightarrow> real list \<Rightarrow> real" where
  "softmax_cross_entropy labels logits =
     - sum_list (map2 (\<lambda>l x. l * (x - ln (sum_list (map exp logits)))) labels logits)"

definition same_shape2 :: "'a list list \<Rightarrow> 'b list list \<Rightarrow> bool" where
  "same_shape2 a b = (map length a = map length b)"

definition same_shape3 :: "'a list list list \<Rightarrow> 'b list list list \<Rightarrow> bool" where
  "same_shape3 a b = (map (map length) a = map (map length) b)"

definition mean :: "real list \<Rightarrow> ndarray option" where
  "mean xs = (if xs = [] then None else Some (Scalar (sum_list xs / real (length xs))))"

fun scalars :: "ndarray list \<Rightarrow> real list option" where
  "scalars [] = Some []"
| "scalars (Scalar x # vs) = map_option ((#) x) (scalars vs)"
| "scalars (v # vs) = None"

fun eval_tensor :: "(tensor \<Rightarrow> ndarray option) \<Rightarrow> tensor \<Rightarrow> ndarray option" where
  "eval_tensor feed (OneHot t depth) =
     (case eval_tensor feed t of
        Some (Ints2 y) \<Rightarrow> Some (Floats3 (map (map (one_hot depth)) y))
      | _ \<Rightarrow> None)"
| "eval_tensor feed (SoftmaxCrossEntropyWithLogits labels logits) =
     (case (eval_tensor feed labels, eval_tensor feed logits) of
        (Some (Floats3 l), Some (Floats3 x)) \<Rightarrow>
          if same_shape3 l x then Some (Floats2 (map2 (map2 softmax_cross_entropy) l x))
          else None
      | _ \<Rightarrow> None)"
| "eval_tensor feed (Mul a b) =
     (case (eval_tensor feed a, eval_tensor feed b) of
        (Some (Floats2 x), Some (Floats2 y)) \<Rightarrow>
          if same_shape2 x y then Some (Floats2 (map2 (map2 (*)) x y)) else None
      | (Some (Scalar x), Some (Scalar y)) \<Rightarrow> Some (Scalar (x * y))
      | _ \<Rightarrow> None)"
| "eval_tensor feed (Add a b) =
     (case (eval_tensor feed a, eval_tensor feed b) of
        (Some (Scalar x), Some (Scalar y)) \<Rightarrow> Some (Scalar (x + y))
      | _ \<Rightarrow> None)"
| "eval_tensor feed (Neg a) =
     (case eval_tensor feed a of
        Some (Scalar x) \<Rightarrow> Some (Scalar (- x))
      | Some (Floats1 xs) \<Rightarrow> Some (Floats1 (map uminus xs))
      | _ \<Rightarrow> None)"
| "eval_tensor feed (Const c) = Some (Scalar c)"
| "eval_tensor feed (Pack ts) =
     (case those (map (eval_tensor feed) ts) of
        Some vs \<Rightarrow> map_option Floats1 (scalars vs)
      | None \<Rightarrow> None)"
| "eval_tensor feed (ReduceMean t) =
     (case eval_tensor feed t of
        Some (Scalar x) \<Rightarrow> Some (Scalar x)
      | Some (Floats1 xs) \<Rightarrow> mean xs
      | Some (Floats2 xs) \<Rightarrow> mean (concat xs)
      | _ \<Rightarrow> None)"
| "eval_tensor feed (Placeholder dt shape name) = feed (Placeholder dt shape name)"
| "eval_tensor feed (PlaceholderWithDefault v shape name) = feed (PlaceholderWithDefault v shape name)"
| "eval_tensor feed (EmbeddingLayer t m) = feed (EmbeddingLayer t m)"
| "eval_tensor feed (LayersDropout t r ns) = feed (LayersDropout t r ns)"
| "eval_tensor feed CharacterEmbeddingNetwork = feed CharacterEmbeddingNetwork"
| "eval_tensor feed (BiRnn d u h ct n) = feed (BiRnn d u h ct n)"
| "eval_tensor feed (CudnnBiLstm d u h n) = feed (CudnnBiLstm d u h n)"
| "eval_tensor feed (CudnnBiGru d u h n) = feed (CudnnBiGru d u h n)"
| "eval_tensor feed (Concat ts axis) = feed (Concat ts axis)"
| "eval_tensor feed (VariationalDropout u kp) = feed (VariationalDropout u kp)"
| "eval_tensor feed (StackedCnn t hs w b tr) = feed (StackedCnn t hs w b tr)"
| "eval_tensor feed (Dense u n act) = feed (Dense u n act)"
| "eval_tensor feed (L2LossKernel t) = feed (L2LossKernel t)"
| "eval_tensor feed (ReduceSum t a) = feed (ReduceSum t a)"
| "eval_tensor feed (CrfLogLikelihood a b c) = feed (CrfLogLikelihood a b c)"
| "eval_tensor feed (CrfTransitionParams a b c) = feed (CrfTransitionParams a b c)"
| "eval_tensor feed (TrainOp a b c) = None"

section \<open>Properties\<close>

lemmas py_defs = return_def raise_def bind_def seq_def lift_def getattr_def setattr_def
  getattr_tensor_def append_attr_def

subsection \<open>The constructor never completes\<close>

lemma init_input_features_result:
  "fst (init_input_features e cfg s) =
     (case (char_emb_dim cfg, character_embedding_network e) of
        (Some d, Inl err) \<Rightarrow> Inl err
      | _ \<Rightarrow> Inl (TypeError ''concat() missing 1 required positional argument: axis''))"
  by (simp add: init_input_features_def build_training_placeholders_def
      build_word_embeddings_def build_mask_def build_char_embeddings_def
      build_capitalization_def build_pos_def tf_concat_def py_defs Let_def
      split: option.splits sum.splits prod.splits)

lemma build_train_predict_length:
  "build_train_predict logits m nt uc cg l2 s = (Inr r, s') \<Longrightarrow> length r = 2"
  by (auto simp: build_train_predict_def get_collection_def py_defs Let_def
      split: option.splits sum.splits prod.splits pyval.splits if_splits)

lemma bind_fails:
  assumes "\<And>x s'. m s = (Inr x, s') \<Longrightarrow> \<exists>err. fst (f x s') = Inl err"
  shows "\<exists>err. fst (bind m f s) = Inl err"
proof (cases "m s")
  case (Pair r s')
  then show ?thesis using assms by (cases r) (auto simp: bind_def)
qed

lemma unpack3_pair: "length r = 2 \<Longrightarrow> \<exists>err. unpack3 r = Inl err"
  by (auto simp: length_Suc_conv numeral_2_eq_2)

lemma init_network_fails:
  "\<exists>err. fst (init_network e cfg features mask_ph s) = Inl err"
  unfolding init_network_def
  apply (rule bind_fails)+
  apply (auto simp: lift_def dest!: build_train_predict_length unpack3_pair)
  done

text \<open>
  C1. For every configuration, every collaborator and every starting state the
  constructor raises. It raises in the section that builds the input features: the error
  of \<open>character_embedding_network()\<close> when the character features are switched on and
  that call fails, and otherwise the \<open>TypeError\<close> of \<open>tf.concat\<close> called without its
  axis. The rest of the constructor, entered with any feature tensor and any mask
  placeholder in any state, raises as well: \<open>_build_train_predict\<close> returns two values
  where three names are unpacked. So no call of the constructor returns an instance.
\<close>

theorem NerNetwork_init_never_completes:
  "(\<exists>err. fst (NerNetwork_init e cfg s) = Inl err) \<and>
   fst (NerNetwork_init e cfg s) =
     (case (char_emb_dim cfg, character_embedding_network e) of
        (Some d, Inl err) \<Rightarrow> Inl err
      | _ \<Rightarrow> Inl (TypeError ''concat() missing 1 required positional argument: axis'')) \<and>
   (\<exists>err. fst (init_network e cfg features mask_ph s') = Inl err)"
proof -
  have r: "fst (NerNetwork_init e cfg s) =
     (case (char_emb_dim cfg, character_embedding_network e) of
        (Some d, Inl err) \<Rightarrow> Inl err
      | _ \<Rightarrow> Inl (TypeError ''concat() missing 1 required positional argument: axis''))"
    using init_input_features_result [of e cfg s]
    by (cases "init_input_features e cfg s")
       (auto simp: NerNetwork_init_def bind_def split: option.splits sum.splits)
  have "\<exists>err. fst (NerNetwork_init e cfg s) = Inl err"
    unfolding r by (auto split: option.splits sum.splits)
  with r init_network_fails [of e cfg features mask_ph s'] show ?thesis
    by blast
qed

subsection \<open>The fused recurrent encoder stops after one layer\<close>

lemma lower_lstm: "lower ''lstm'' = ''lstm''"
  by (simp add: lower_def lower_char_def)

lemma lower_gru: "lower ''gru'' = ''gru''"
  by (simp add: lower_def lower_char_def)

text \<open>
  The plain variant does what the spec asks of both: with a recognized cell type it
  visits every entry of \<open>n_hidden_list\<close> in order, and its output has twice the width of
  the last entry.
\<close>

lemma build_rnn_loop_all_layers:
  assumes "ct = ''lstm'' \<or> ct = ''gru''" and "self s ''_dropout_ph'' = Some (PTensor kp)"
  shows "\<exists>r. build_rnn_loop u (enumerate k hs) len ct d s = (Inr r, s) \<and>
             hidden_layers r = hidden_layers u @ hs \<and>
             (hs \<noteq> [] \<longrightarrow> last_dim r = Some (2 * last hs))"
proof (induction hs arbitrary: u k)
  case Nil
  then show ?case by (simp add: return_def)
next
  case (Cons h hs)
  define c where "c = Concat [BiRnn Fw u h ct k, BiRnn Bw u h ct k] (- 1)"
  define u' where "u' = (if d \<and> int k \<noteq> int len - 1 then VariationalDropout c kp else c)"
  have hl: "hidden_layers u' = hidden_layers u @ [h]"
    by (simp add: u'_def c_def)
  have ld: "last_dim u' = Some (2 * h)"
    by (simp add: u'_def c_def)
  have step: "build_rnn_loop u (enumerate k (h # hs)) len ct d s =
                build_rnn_loop u' (enumerate (Suc k) hs) len ct d s"
    using assms
    by (simp add: bi_rnn_def tf_concat_def intra_dropout_def py_defs u'_def c_def)
  from Cons.IH [of u' "Suc k"] obtain r where
    r: "build_rnn_loop u' (enumerate (Suc k) hs) len ct d s = (Inr r, s)"
       "hidden_layers r = hidden_layers u' @ hs"
       "hs \<noteq> [] \<longrightarrow> last_dim r = Some (2 * last hs)"
    by blast
  have "hs = [] \<Longrightarrow> r = u'"
    using r(1) by (simp add: return_def)
  with r hl ld step show ?case
    by (cases "hs = []") auto
qed

lemma build_rnn_all_layers:
  assumes "ct = ''lstm'' \<or> ct = ''gru''" and "self s ''_dropout_ph'' = Some (PTensor kp)"
    and "hs \<noteq> []"
  shows "\<exists>r. build_rnn u hs ct d s = (Inr r, s) \<and>
             hidden_layers r = hidden_layers u @ hs \<and> last_dim r = Some (2 * last hs)"
  using build_rnn_loop_all_layers [OF assms(1,2), of u 0 hs "length hs" d] assms(3)
  by (auto simp: build_rnn_def)

text \<open>
  C2. The claim fails on the fused variant. With a GPU present, the cell type
  \<open>'lstm'\<close>, no dropout and \<open>n_hidden_list = (128, 64)\<close>, \<open>_build_cudnn_rnn\<close> returns the
  output of the first layer: a node built on the one layer of 128 units, of width
  \<open>2 \<times> 128 = 256\<close>, where the claim has both layers applied and the width \<open>2 \<times> 64 = 128\<close>.
\<close>

theorem build_cudnn_rnn_first_layer_only:
  "build_cudnn_rnn \<lparr>check_gpu_existance = True, character_embedding_network = r\<rparr>
      u [128, 64] ''lstm'' False s =
     (Inr (Some (Concat [CudnnBiLstm Fw u 128 0, CudnnBiLstm Bw u 128 0] (- 1))), s) \<and>
   hidden_layers (Concat [CudnnBiLstm Fw u 128 0, CudnnBiLstm Bw u 128 0] (- 1)) =
     hidden_layers u @ [128] \<and>
   last_dim (Concat [CudnnBiLstm Fw u 128 0, CudnnBiLstm Bw u 128 0] (- 1)) = Some 256"
  by (simp add: build_cudnn_rnn_def enumerate_eq_zip lower_lstm intra_dropout_def
      tf_concat_def py_defs upt_rec)

subsection \<open>Training is a placeholder\<close>

text \<open>
  C3. The claim fails on the code: for every batch \<open>x\<close>, \<open>y\<close> and in every state,
  \<open>train_on_batch\<close> returns \<open>None\<close> and leaves the state as it was. No training
  operation runs and no loss is returned.
\<close>

theorem train_on_batch_does_nothing:
  "train_on_batch x y s = (Inr PNone, s)"
  by (simp add: train_on_batch_def return_def)

subsection \<open>The character builder registers nothing\<close>

text \<open>
  C4. The claim fails on the code: \<open>_build_char_embeddings\<close> leaves the state as it
  found it, whatever the character network does. In a constructor run with
  \<open>char_emb_dim = 25\<close> and a character network that returns a tensor, the run-time input
  list holds the token and the mask placeholder only, and the one input feature is the
  token embedding.
\<close>

theorem build_char_embeddings_registers_nothing:
  "snd (build_char_embeddings e m d s) = s \<and>
   self (snd (NerNetwork_init
      \<lparr>check_gpu_existance = g, character_embedding_network = Inr CharacterEmbeddingNetwork\<rparr>
      ((default_config 3)\<lparr>char_emb_dim := Some 25\<rparr>)
      \<lparr>self = Map.empty, REGULARIZATION_LOSSES = []\<rparr>)) ''_xs_placeholders'' =
     Some (PTensors [Placeholder int32 [AnyDim, AnyDim] None,
                     Placeholder float32 [AnyDim, AnyDim] (Some ''Mask_ph'')]) \<and>
   self (snd (NerNetwork_init
      \<lparr>check_gpu_existance = g, character_embedding_network = Inr CharacterEmbeddingNetwork\<rparr>
      ((default_config 3)\<lparr>char_emb_dim := Some 25\<rparr>)
      \<lparr>self = Map.empty, REGULARIZATION_LOSSES = []\<rparr>)) ''_input_features'' =
     Some (PTensors [EmbeddingLayer (Placeholder int32 [AnyDim, AnyDim] None) None])"
  by (auto simp add: init_input_features_def build_training_placeholders_def
      NerNetwork_init_def build_word_embeddings_def build_mask_def build_char_embeddings_def
      default_config_def build_capitalization_def build_pos_def tf_concat_def py_defs Let_def
      split: option.splits sum.splits prod.splits)

subsection \<open>Invalid configurations\<close>

lemma init_without_char_features:
  "char_emb_dim cfg = None \<Longrightarrow> fst (NerNetwork_init e cfg s) =
     Inl (TypeError ''concat() missing 1 required positional argument: axis'')"
  using init_input_features_result [of e cfg s]
  by (cases "init_input_features e cfg s") (auto simp: NerNetwork_init_def bind_def)

text \<open>
  C5. The claim fails on the code. With \<open>net_type = 'transformer'\<close> (every other argument
  at its default) the constructor raises the \<open>TypeError\<close> of \<open>tf.concat\<close>, which says
  nothing of the network type; and the section that builds the network, entered with any
  features, has no branch for the value and raises \<open>UnboundLocalError\<close> for \<open>units\<close>.
  With \<open>use_cudnn_rnn = True\<close> and \<open>l2_reg = 0.5\<close> on a machine without GPU the
  constructor raises the same \<open>TypeError\<close> of \<open>tf.concat\<close>; the section that builds the
  network would raise the warning about L2 regularization.
\<close>

theorem invalid_configuration_errors:
  "fst (NerNetwork_init e ((default_config 3)\<lparr>net_type := ''transformer''\<rparr>) s) =
     Inl (TypeError ''concat() missing 1 required positional argument: axis'') \<and>
   fst (init_network e ((default_config 3)\<lparr>net_type := ''transformer''\<rparr>) f m s) =
     Inl (UnboundLocalError ''units'') \<and>
   fst (NerNetwork_init \<lparr>check_gpu_existance = False, character_embedding_network = r\<rparr>
          ((default_config 3)\<lparr>use_cudnn_rnn := True, l2_reg := 0.5\<rparr>) s) =
     Inl (TypeError ''concat() missing 1 required positional argument: axis'') \<and>
   fst (init_network \<lparr>check_gpu_existance = False, character_embedding_network = r\<rparr>
          ((default_config 3)\<lparr>use_cudnn_rnn := True, l2_reg := 0.5\<rparr>) f m s) =
     Inl (Warning ''cuDNN RNN are not l2 regularizable'')"
  by (simp add: init_without_char_features default_config_def)
     (simp add: init_network_def default_config_def py_defs)

subsection \<open>Dropout over the token embedding\<close>





subsection \<open>Prediction in CRF mode\<close>

lemma decode_loop_lengths:
  assumes "\<And>score tp sq v. viterbi_decode rt score tp = Inr (sq, v) \<Longrightarrow> length sq = length score"
    and "decode_loop rt xs tp acc = Inr ys"
  shows "map length ys =
     map length acc @ map (\<lambda>(logit, sl). length (slice_to logit (py_int sl))) xs"
  using assms(2)
proof (induction xs arbitrary: acc)
  case Nil
  then show ?case by simp
next
  case (Cons p xs)
  obtain logit sl where p: "p = (logit, sl)" by (cases p)
  from Cons.prems p obtain sq v where
    d: "viterbi_decode rt (slice_to logit (py_int sl)) tp = Inr (sq, v)" and
    rest: "decode_loop rt xs tp (acc @ [sq]) = Inr ys"
    by (auto simp: Let_def split: sum.splits)
  from Cons.IH [OF rest] assms(1) [OF d] p show ?case by simp
qed

text \<open>
  C7. The claim fails on the code. On the instance a constructor run with
  \<open>use_crf = True\<close> leaves behind, \<open>predict_no_crf\<close> called with token ids and a mask
  of true lengths 3 and 2 raises \<open>AttributeError\<close> for \<open>_use_crf\<close>; on a bare instance
  it raises it for \<open>_xs_placeholders\<close>. No tag sequence is returned. (Where the
  attributes it reads are present, the loop of the CRF branch does decode every example
  on its own, truncated to its length: \<open>decode_loop_lengths\<close>.)
\<close>

theorem predict_no_crf_crf_mode_raises:
  "fst (predict_no_crf rt [Ints2 [[4, 7, 1, 0], [5, 2, 0, 0]], Floats2 [[1, 1, 1, 0], [1, 1, 0, 0]]]
     (snd (NerNetwork_init e ((default_config 3)\<lparr>use_crf := True\<rparr>)
        \<lparr>self = Map.empty, REGULARIZATION_LOSSES = []\<rparr>))) =
     Inl (AttributeError ''_use_crf'') \<and>
   fst (predict_no_crf rt [Ints2 [[4, 7, 1, 0], [5, 2, 0, 0]], Floats2 [[1, 1, 1, 0], [1, 1, 0, 0]]]
     \<lparr>self = Map.empty, REGULARIZATION_LOSSES = []\<rparr>) =
     Inl (AttributeError ''_xs_placeholders'')"
  by (simp add: init_input_features_def build_training_placeholders_def
      NerNetwork_init_def build_word_embeddings_def build_mask_def build_char_embeddings_def
      default_config_def build_capitalization_def build_pos_def tf_concat_def py_defs Let_def
      predict_no_crf_def split: option.splits sum.splits)

subsection \<open>The masked softmax loss\<close>

lemma map_length_map2:
  "map length a = map length b \<Longrightarrow> map length (map2 (map2 f) a b) = map length b"
proof (induction a arbitrary: b)
  case Nil
  then show ?case by simp
next
  case (Cons x a)
  then show ?case by (cases b) auto
qed





lemma outer_lengths:
  assumes "map (map length) x = map (map (\<lambda>i. n)) y"
  shows "map length x = map length y"
proof -
  have "map length (map (map length) x) = map length (map (map (\<lambda>i. n)) y)"
    by (simp only: assms)
  then show ?thesis by (simp add: comp_def)
qed

lemma eval_masked_loss:
  assumes "eval_tensor feed y_ph = Some (Ints2 y)"
    and "eval_tensor feed logits = Some (Floats3 x)"
    and "eval_tensor feed mask' = Some (Floats2 m)"
    and "map (map length) x = map (map (\<lambda>i. n)) y"
    and "map length y = map length m"
  shows "eval_tensor feed (ReduceMean (Mul (SoftmaxCrossEntropyWithLogits (OneHot y_ph n) logits) mask')) =
     mean (concat (map2 (map2 (*))
        (map2 (map2 softmax_cross_entropy) (map (map (one_hot n)) y) x) m))"
proof -
  have s3: "same_shape3 (map (map (one_hot n)) y) x"
    using assms(4) by (simp add: same_shape3_def one_hot_def comp_def)
  have xy: "map length x = map length y"
    using assms(4) by (rule outer_lengths)
  then have "map length (map (map (one_hot n)) y) = map length x"
    by (simp add: comp_def)
  then have "map length (map2 (map2 softmax_cross_entropy) (map (map (one_hot n)) y) x) = map length x"
    by (rule map_length_map2)
  with xy have s2: "same_shape2 (map2 (map2 softmax_cross_entropy) (map (map (one_hot n)) y) x) m"
    using assms(5) by (simp add: same_shape2_def)
  show ?thesis
    using assms(1-3) s3 s2 by simp
qed



subsection \<open>L2 regularization\<close>

lemma those_scalars:
  "those (map (\<lambda>p. Some (Scalar p)) ps) = Some (map Scalar ps)"
  by (induction ps) auto

lemma scalars_map: "scalars (map Scalar ps) = Some ps"
  by (induction ps) auto

lemma eval_pack:
  "map (eval_tensor feed) ts = map (\<lambda>p. Some (Scalar p)) ps \<Longrightarrow>
   eval_tensor feed (Pack ts) = Some (Floats1 ps)"
  by (simp add: those_scalars scalars_map)

text \<open>
  C9. The training operation minimizes a total loss that, for \<open>l2_reg > 0\<close>, evaluates
  to the base loss plus \<open>l2_reg\<close> times the mean of the collected penalty terms (under
  every feed that gives the base loss and the penalties a value), and that is the base
  loss node itself otherwise.
\<close>

theorem total_loss_regularized:
  assumes "self s ''_y_ph'' = Some (PTensor y_ph)"
    and "self s ''learning_rate_ph'' = Some (PTensor lr)"
  shows "\<exists>total loss.
     fst (build_train_predict logits mask' n crf clip l2 s) = Inr [TrainOp total lr clip, loss] \<and>
     (if l2 > 0
      then \<forall>feed b ps.
             eval_tensor feed loss = Some (Scalar b) \<and>
             map (eval_tensor feed) (REGULARIZATION_LOSSES s) = map (\<lambda>p. Some (Scalar p)) ps \<and>
             ps \<noteq> [] \<longrightarrow>
             eval_tensor feed total = Some (Scalar (b + l2 * (sum_list ps / real (length ps))))
      else total = loss)"
proof (cases "l2 > 0")
  case True
  define loss where "loss = ReduceMean (if crf
       then Neg (CrfLogLikelihood logits y_ph (ReduceSum mask' 1))
       else Mul (SoftmaxCrossEntropyWithLogits (OneHot y_ph n) logits) mask')"
  define total where
    "total = Add loss (Mul (Const l2) (ReduceMean (Pack (REGULARIZATION_LOSSES s))))"
  have r: "fst (build_train_predict logits mask' n crf clip l2 s) = Inr [TrainOp total lr clip, loss]"
    using assms True
    by (simp add: build_train_predict_def get_collection_def py_defs Let_def loss_def total_def)
  have "eval_tensor feed total = Some (Scalar (b + l2 * (sum_list ps / real (length ps))))"
    if "eval_tensor feed loss = Some (Scalar b)"
      and "map (eval_tensor feed) (REGULARIZATION_LOSSES s) = map (\<lambda>p. Some (Scalar p)) ps"
      and "ps \<noteq> []" for feed b ps
    using that by (simp add: total_def those_scalars scalars_map mean_def)
  with r True show ?thesis by auto
next
  case False
  then show ?thesis
    using assms
    by (simp add: build_train_predict_def get_collection_def py_defs Let_def)
qed

theorem total_loss_regularized_witness:
  "\<exists>total loss.
     fst (build_train_predict (Dense (Const 0) 2 Linear)
            (Placeholder float32 [AnyDim, AnyDim] (Some ''Mask_ph'')) 2 False 5 (1 / 2)
            \<lparr>self = [''_y_ph'' \<mapsto> PTensor (Placeholder int32 [AnyDim, AnyDim] (Some ''y_ph'')),
                     ''learning_rate_ph'' \<mapsto> PTensor (Placeholder float32 [] (Some ''learning_rate''))],
             REGULARIZATION_LOSSES = [L2LossKernel (Dense (Const 0) 2 Linear)]\<rparr>) =
       Inr [TrainOp total (Placeholder float32 [] (Some ''learning_rate'')) 5, loss] \<and>
     eval_tensor
       ((\<lambda>t. None)(Placeholder int32 [AnyDim, AnyDim] (Some ''y_ph'') \<mapsto> Ints2 [[0, 1]],
                    Dense (Const 0) 2 Linear \<mapsto> Floats3 [[[1, 2], [3, 4]]],
                    Placeholder float32 [AnyDim, AnyDim] (Some ''Mask_ph'') \<mapsto> Floats2 [[0, 0]],
                    L2LossKernel (Dense (Const 0) 2 Linear) \<mapsto> Scalar 4))
       loss = Some (Scalar 0) \<and>
     eval_tensor
       ((\<lambda>t. None)(Placeholder int32 [AnyDim, AnyDim] (Some ''y_ph'') \<mapsto> Ints2 [[0, 1]],
                    Dense (Const 0) 2 Linear \<mapsto> Floats3 [[[1, 2], [3, 4]]],
                    Placeholder float32 [AnyDim, AnyDim] (Some ''Mask_ph'') \<mapsto> Floats2 [[0, 0]],
                    L2LossKernel (Dense (Const 0) 2 Linear) \<mapsto> Scalar 4))
       total = Some (Scalar 2)"
proof -
  define y_ph where "y_ph = Placeholder int32 [AnyDim, AnyDim] (Some ''y_ph'')"
  define lr where "lr = Placeholder float32 [] (Some ''learning_rate'')"
  define lg where "lg = Dense (Const 0) 2 Linear"
  define mk where "mk = Placeholder float32 [AnyDim, AnyDim] (Some ''Mask_ph'')"
  define s where "s = \<lparr>self = [''_y_ph'' \<mapsto> PTensor y_ph, ''learning_rate_ph'' \<mapsto> PTensor lr],
                        REGULARIZATION_LOSSES = [L2LossKernel lg]\<rparr>"
  define feed where "feed = (\<lambda>t. None)(y_ph \<mapsto> Ints2 [[0, 1]], lg \<mapsto> Floats3 [[[1, 2], [3, 4]]],
                         mk \<mapsto> Floats2 [[0, 0]], L2LossKernel lg \<mapsto> Scalar 4)"
  have a: "self s ''_y_ph'' = Some (PTensor y_ph)" "self s ''learning_rate_ph'' = Some (PTensor lr)"
    by (simp_all add: s_def)
  from total_loss_regularized [OF a, of lg mk 2 False 5 "1 / 2"] obtain total loss where
    r: "fst (build_train_predict lg mk 2 False 5 (1 / 2) s) = Inr [TrainOp total lr 5, loss]" and
    q: "\<forall>feed b ps.
          eval_tensor feed loss = Some (Scalar b) \<and>
          map (eval_tensor feed) (REGULARIZATION_LOSSES s) = map (\<lambda>p. Some (Scalar p)) ps \<and>
          ps \<noteq> [] \<longrightarrow>
          eval_tensor feed total = Some (Scalar (b + 1 / 2 * (sum_list ps / real (length ps))))"
    by auto
  have l: "loss = ReduceMean (Mul (SoftmaxCrossEntropyWithLogits (OneHot y_ph 2) lg) mk)"
    using r a by (simp add: build_train_predict_def get_collection_def py_defs Let_def)
  have f: "eval_tensor feed y_ph = Some (Ints2 [[0, 1]])"
    "eval_tensor feed lg = Some (Floats3 [[[1, 2], [3, 4]]])"
    "eval_tensor feed mk = Some (Floats2 [[0, 0]])"
    by (simp_all add: feed_def y_ph_def lg_def mk_def)
  have v: "eval_tensor feed loss = Some (Scalar 0)"
    unfolding l using eval_masked_loss [OF f, of 2] by (simp add: mean_def)
  have c: "map (eval_tensor feed) (REGULARIZATION_LOSSES s) = map (\<lambda>p. Some (Scalar p)) [4]"
    by (simp add: s_def feed_def lg_def)
  from q v c have "eval_tensor feed total =
      Some (Scalar (0 + 1 / 2 * (sum_list [4] / real (length [4::real]))))"
    by blast
  then have t: "eval_tensor feed total = Some (Scalar 2)"
    by simp
  from r v t show ?thesis
    unfolding s_def feed_def y_ph_def lr_def lg_def mk_def by blast
qed

subsection \<open>Attributes that no method assigns\<close>

lemma keeps_return [keeps]: "keeps_names (return x)"
  by (simp add: keeps_names_def return_def)

lemma keeps_raise [keeps]: "keeps_names (raise err)"
  by (simp add: keeps_names_def raise_def)

lemma keeps_lift [keeps]: "keeps_names (lift r)"
  by (simp add: keeps_names_def lift_def)

lemma keeps_getattr [keeps]: "keeps_names (getattr name)"
  by (simp add: keeps_names_def getattr_def split: option.splits)

lemma keeps_setattr [keeps]:
  "name \<in> assigned_names \<Longrightarrow> name \<noteq> ''_xs_placeholders'' \<Longrightarrow> keeps_names (setattr name v)"
  by (simp add: keeps_names_def setattr_def instance_ok_def)

lemma keeps_setattr_xs [keeps]: "keeps_names (setattr ''_xs_placeholders'' (PTensors ts))"
  by (simp add: keeps_names_def setattr_def instance_ok_def assigned_names_def)

lemma keeps_bind [keeps]:
  assumes "keeps_names m" and "\<And>x. keeps_names (f x)"
  shows "keeps_names (bind m f)"
  unfolding keeps_names_def
proof (intro allI impI)
  fix s :: state
  assume a: "instance_ok s"
  obtain r s' where ms: "m s = (r, s')" by (cases "m s")
  with assms(1) a have b: "instance_ok s'"
    by (auto simp: keeps_names_def dest!: spec [of _ s])
  show "instance_ok (snd (bind m f s))"
  proof (cases r)
    case (Inl err)
    with ms b show ?thesis by (simp add: bind_def)
  next
    case (Inr x)
    with ms b assms(2) [of x] show ?thesis
      by (auto simp: bind_def keeps_names_def dest!: spec [of _ s'])
  qed
qed

lemma keeps_seq [keeps]: "keeps_names m \<Longrightarrow> keeps_names k \<Longrightarrow> keeps_names (seq m k)"
  by (simp add: seq_def keeps_bind)

lemma keeps_if [keeps]: "keeps_names a \<Longrightarrow> keeps_names b \<Longrightarrow> keeps_names (if c then a else b)"
  by simp

lemma keeps_getattr_tensor [keeps]: "keeps_names (getattr_tensor name)"
  unfolding getattr_tensor_def
  by (intro keeps_bind keeps_getattr) (simp add: keeps_return keeps_raise split: pyval.split)

lemma keeps_append_attr [keeps]: "name \<in> assigned_names \<Longrightarrow> keeps_names (append_attr name t)"
  unfolding append_attr_def
  by (cases "name = ''_xs_placeholders''")
     (auto intro!: keeps_bind keeps_getattr simp: keeps_setattr keeps_setattr_xs keeps_raise
        split: pyval.split)

lemma keeps_layers_dense [keeps]: "keeps_names (layers_dense u n a)"
  by (simp add: keeps_names_def layers_dense_def instance_ok_def)

lemma keeps_get_collection [keeps]: "keeps_names get_collection"
  by (simp add: keeps_names_def get_collection_def instance_ok_def)

lemma names [simp]:
  "''learning_rate_ph'' \<in> assigned_names" "''_dropout_ph'' \<in> assigned_names"
  "''training_ph'' \<in> assigned_names" "''_xs_placeholders'' \<in> assigned_names"
  "''_y_ph'' \<in> assigned_names" "''_input_features'' \<in> assigned_names"
  "''train_op'' \<in> assigned_names" "''loss'' \<in> assigned_names"
  "''predict'' \<in> assigned_names" "''sess'' \<in> assigned_names"
  by (simp_all add: assigned_names_def)

lemma keeps_build_training_placeholders [keeps]: "keeps_names build_training_placeholders"
  unfolding build_training_placeholders_def by (intro keeps) simp_all

lemma keeps_build_word_embeddings [keeps]: "keeps_names (build_word_embeddings m d)"
  unfolding build_word_embeddings_def Let_def by (intro keeps) simp_all

lemma keeps_build_mask [keeps]: "keeps_names build_mask"
  unfolding build_mask_def Let_def by (intro keeps) simp_all

lemma keeps_build_char_embeddings [keeps]: "keeps_names (build_char_embeddings e m d)"
  unfolding build_char_embeddings_def Let_def by (intro keeps)

lemma keeps_build_capitalization [keeps]: "keeps_names (build_capitalization k)"
  unfolding build_capitalization_def Let_def by (intro keeps) simp_all

lemma keeps_build_pos [keeps]: "keeps_names (build_pos k)"
  unfolding build_pos_def Let_def by (intro keeps) simp_all

lemma keeps_intra_dropout [keeps]: "keeps_names (intra_dropout d n len u)"
  unfolding intra_dropout_def by (intro keeps)

lemma keeps_build_cudnn_rnn_loop [keeps]: "keeps_names (build_cudnn_rnn_loop u hs len ct d)"
proof (cases hs)
  case Nil
  then show ?thesis by (simp add: keeps)
next
  case (Cons p rest)
  then show ?thesis by (cases p) (auto intro!: keeps)
qed

lemma keeps_build_cudnn_rnn [keeps]: "keeps_names (build_cudnn_rnn e u hs ct d)"
  unfolding build_cudnn_rnn_def by (intro keeps)

lemma keeps_build_rnn_loop [keeps]: "keeps_names (build_rnn_loop u hs len ct d)"
proof (induction hs arbitrary: u)
  case Nil
  then show ?case by (simp add: keeps)
next
  case (Cons p rest)
  then show ?case by (cases p) (auto intro!: keeps)
qed

lemma keeps_build_rnn [keeps]: "keeps_names (build_rnn u hs ct d)"
  unfolding build_rnn_def by (intro keeps)

lemma keeps_build_cnn [keeps]: "keeps_names (build_cnn u hs w b)"
  unfolding build_cnn_def by (intro keeps)

lemma keeps_build_top [keeps]: "keeps_names (build_top u n h d t)"
  unfolding build_top_def by (intro keeps)

lemma keeps_build_train_predict [keeps]: "keeps_names (build_train_predict lg m n c g l)"
  unfolding build_train_predict_def Let_def by (intro keeps)

lemma keeps_case_option [keeps]:
  "keeps_names a \<Longrightarrow> (\<And>x. keeps_names (b x)) \<Longrightarrow> keeps_names (case_option a b v)"
  by (cases v) simp_all

lemma keeps_case_prod [keeps]:
  "(\<And>x y. keeps_names (f x y)) \<Longrightarrow> keeps_names (case_prod f p)"
  by (cases p) simp

lemma keeps_init_input_features [keeps]: "keeps_names (init_input_features e cfg)"
  unfolding init_input_features_def
  by (intro keeps) (simp_all add: keeps split: pyval.split)

lemma keeps_init_network [keeps]: "keeps_names (init_network e cfg f m)"
  unfolding init_network_def
  by (intro keeps) (simp_all add: keeps split: local_var.split list.split option.split)

lemma keeps_init [keeps]: "keeps_names (NerNetwork_init e cfg)"
  unfolding NerNetwork_init_def init_session_def by (intro keeps) simp_all

lemma keeps_run_session [keeps]: "keeps_names (run_session rt sess fs fd)"
  unfolding run_session_def by (simp add: keeps split: pyval.split)

lemma keeps_predict_no_crf [keeps]: "keeps_names (predict_no_crf rt args)"
  unfolding predict_no_crf_def
  by (intro keeps) (simp_all add: keeps split: pyval.split list.split ndarray.split)

lemma keepsD: "keeps_names m \<Longrightarrow> instance_ok s \<Longrightarrow> instance_ok (snd (m s))"
  by (simp add: keeps_names_def)

lemma keeps_stubs [keeps]:
  "keeps_names (call args)" "keeps_names (train_on_batch x y)"
  "keeps_names (save args)" "keeps_names (load args)"
  by (simp_all add: call_def train_on_batch_def save_def load_def keeps_return)

lemma reachable_instance_ok: "reachable e rt s \<Longrightarrow> instance_ok s"
proof (induction rule: reachable.induct)
  case (new g)
  then show ?case by (simp add: instance_ok_def)
qed (rule keepsD, rule keeps, assumption)+

lemma predict_no_crf_without_names:
  assumes "instance_ok s"
  shows "fst (predict_no_crf rt args s) = Inl (AttributeError ''_xs_placeholders'') \<or>
         fst (predict_no_crf rt args s) = Inl (AttributeError ''_use_crf'')"
proof -
  have n: "self s ''_use_crf'' = None"
    using assms by (auto simp: instance_ok_def assigned_names_def)
  show ?thesis
  proof (cases "self s ''_xs_placeholders''")
    case None
    then show ?thesis by (simp add: predict_no_crf_def py_defs)
  next
    case (Some v)
    with assms obtain ts where "v = PTensors ts"
      by (auto simp: instance_ok_def split: pyval.splits)
    with Some n show ?thesis by (simp add: predict_no_crf_def py_defs)
  qed
qed

text \<open>
  C10. In every state an instance can reach through the methods of the class, none of
  \<open>_use_crf\<close>, \<open>_sess\<close>, \<open>_logits\<close>, \<open>_transition_params\<close>, \<open>_sequence_lengths\<close> and
  \<open>_y_pred\<close> is an attribute, and \<open>predict_no_crf\<close> raises \<open>AttributeError\<close> whatever
  its arguments: for \<open>_xs_placeholders\<close> when the constructor has not set it, for
  \<open>_use_crf\<close> otherwise.
\<close>

theorem predict_no_crf_always_raises:
  assumes "reachable e rt s"
  shows "self s ''_use_crf'' = None \<and> self s ''_sess'' = None \<and> self s ''_logits'' = None \<and>
         self s ''_transition_params'' = None \<and> self s ''_sequence_lengths'' = None \<and>
         self s ''_y_pred'' = None \<and>
         (fst (predict_no_crf rt args s) = Inl (AttributeError ''_xs_placeholders'') \<or>
          fst (predict_no_crf rt args s) = Inl (AttributeError ''_use_crf''))"
proof -
  have ok: "instance_ok s"
    using assms by (rule reachable_instance_ok)
  then have "dom (self s) \<subseteq> assigned_names"
    by (simp add: instance_ok_def)
  then have "\<And>name. name \<notin> assigned_names \<Longrightarrow> self s name = None"
    by blast
  then show ?thesis
    using predict_no_crf_without_names [OF ok, of rt args]
    by (simp add: assigned_names_def)
qed

theorem predict_no_crf_always_raises_witness:
  "reachable \<lparr>check_gpu_existance = False, character_embedding_network = Inr CharacterEmbeddingNetwork\<rparr>
     \<lparr>session_run = (\<lambda>fetches feed. Inr []), viterbi_decode = (\<lambda>score trans. Inr ([], 0))\<rparr>
     (snd (NerNetwork_init
        \<lparr>check_gpu_existance = False, character_embedding_network = Inr CharacterEmbeddingNetwork\<rparr>
        (default_config 3) \<lparr>self = Map.empty, REGULARIZATION_LOSSES = []\<rparr>)) \<and>
   fst (predict_no_crf
     \<lparr>session_run = (\<lambda>fetches feed. Inr []), viterbi_decode = (\<lambda>score trans. Inr ([], 0))\<rparr>
     [Ints2 [[1, 2]], Floats2 [[1, 1]]]
     (snd (NerNetwork_init
        \<lparr>check_gpu_existance = False, character_embedding_network = Inr CharacterEmbeddingNetwork\<rparr>
        (default_config 3) \<lparr>self = Map.empty, REGULARIZATION_LOSSES = []\<rparr>))) =
     Inl (AttributeError ''_use_crf'')"
proof -
  define e where
    "e = \<lparr>check_gpu_existance = False, character_embedding_network = Inr CharacterEmbeddingNetwork\<rparr>"
  define rt where
    "rt = \<lparr>session_run = (\<lambda>fetches feed. Inr []), viterbi_decode = (\<lambda>score trans. Inr ([], 0))\<rparr>"
  define s where
    "s = snd (NerNetwork_init e (default_config 3) \<lparr>self = Map.empty, REGULARIZATION_LOSSES = []\<rparr>)"
  have r: "reachable e rt s"
    unfolding s_def by (rule reachable.init, rule reachable.new)
  have x: "self s ''_xs_placeholders'' =
      Some (PTensors [Placeholder int32 [AnyDim, AnyDim] None,
                      Placeholder float32 [AnyDim, AnyDim] (Some ''Mask_ph'')])"
    unfolding s_def e_def
    by (simp add: init_input_features_def build_training_placeholders_def
      NerNetwork_init_def build_word_embeddings_def build_mask_def build_char_embeddings_def
      default_config_def build_capitalization_def build_pos_def tf_concat_def py_defs Let_def)
  have u: "self s ''_use_crf'' = None"
    using predict_no_crf_always_raises [OF r] by simp
  have "fst (predict_no_crf rt [Ints2 [[1, 2]], Floats2 [[1, 1]]] s) =
      Inl (AttributeError ''_use_crf'')"
    using x u by (simp add: predict_no_crf_def py_defs)
  with r show ?thesis
    unfolding s_def e_def rt_def by simp
qed

end
